theory Spec2Isabelle
  imports Complex_Main "HOL-Library.Log_Nat" "HOL-Library.AList" "HOL-Library.Sublist"
begin

section \<open>Python values used by NotenOderSo.py\<close>

subsection \<open>Floats\<close>

text \<open>
  A Python \<open>float\<close> is an IEEE 754 binary64 number. A finite float is modelled by the
  rational number it denotes; every operation computes the exact rational result and rounds
  it to the nearest float, ties to the even significand (\<open>float_round\<close>). The significand
  has 53 bits; below \<open>2^-1022\<close> the spacing stays \<open>2^-1074\<close> (subnormal numbers). The
  exponent is not bounded above: grades lie between 0.7 and 6.0, so a sum would need more than
  \<open>10^307\<close> of them to leave the finite range. Infinities and NaN are not modelled.
\<close>

definition round_half_even :: "rat \<Rightarrow> int" where
  "round_half_even x =
     (let f = \<lfloor>x\<rfloor>; r = x - of_int f
      in if r < 1 / 2 then f else if 1 / 2 < r then f + 1 else if even f then f else f + 1)"

definition pow2 :: "int \<Rightarrow> rat" where
  "pow2 e = (if 0 \<le> e then 2 ^ nat e else 1 / 2 ^ nat (- e))"

text \<open>\<open>ilog2 x\<close> is the binary exponent of a positive \<open>x\<close>: \<open>2^e \<le> x < 2^(e+1)\<close>.\<close>

definition ilog2 :: "rat \<Rightarrow> int" where
  "ilog2 x = (case quotient_of x of (p, q) \<Rightarrow>
     let e = bitlen p - bitlen q in if pow2 e \<le> x then e else e - 1)"

definition float_round :: "rat \<Rightarrow> rat" where
  "float_round x =
     (if x = 0 then 0
      else let e = max (ilog2 \<bar>x\<bar> - 52) (- 1074)
           in of_int (round_half_even (x / pow2 e)) * pow2 e)"

text \<open>
  \<open>a + b\<close> and \<open>a / b\<close> on floats, and \<open>float(n)\<close> for the \<open>int\<close> operand of
  \<open>sum(xs) / len(xs)\<close>. The script divides by the length of a non-empty list only, so
  \<open>ZeroDivisionError\<close> has no branch here.
\<close>

definition float_add :: "rat \<Rightarrow> rat \<Rightarrow> rat" where
  "float_add a b = float_round (a + b)"

definition float_div :: "rat \<Rightarrow> rat \<Rightarrow> rat" where
  "float_div a b = float_round (a / b)"

definition float_of_nat :: "nat \<Rightarrow> rat" where
  "float_of_nat n = float_round (of_nat n)"

text \<open>
  \<open>sum(xs)\<close> starts from the integer 0 and adds the items from left to right, each addition
  rounded. (CPython from 3.12 on carries a compensation term as well; on the lists evaluated
  below both give the same float. The error bounds below are for the sum from left to right.)
\<close>

definition py_sum :: "rat list \<Rightarrow> rat" where
  "py_sum xs = foldl float_add 0 xs"

text \<open>
  \<open>round(x, ndigits)\<close> on a float: CPython prints \<open>x\<close> with \<open>ndigits\<close> digits after the
  point, correctly rounded from the exact binary value with ties to even, and reads the
  decimal string back as the nearest float.
\<close>

definition py_round :: "rat \<Rightarrow> nat \<Rightarrow> rat" where
  "py_round x ndigits =
     float_round (of_int (round_half_even (x * 10 ^ ndigits)) / 10 ^ ndigits)"

subsection \<open>Exceptions and dictionaries\<close>

datatype pyerror = KeyError | IndexError | AttributeError | OSError | JSONDecodeError

text \<open>
  A \<open>dict\<close> keeps its keys in insertion order; it is an association list with distinct keys.
  \<open>d[k] = v\<close> is \<open>AList.update k v d\<close> (in place for a known key, at the end for a new one),
  \<open>del d[k]\<close> is \<open>AList.delete k d\<close>, \<open>k in d\<close> is \<open>k \<in> set (map fst d)\<close>.
\<close>

type_synonym ('k, 'v) dict = "('k \<times> 'v) list"

definition subscript :: "('k, 'v) dict \<Rightarrow> 'k \<Rightarrow> pyerror + 'v" where
  "subscript d k = (case map_of d k of None \<Rightarrow> Inl KeyError | Some v \<Rightarrow> Inr v)"

section \<open>Grade scale\<close>

definition NOTE_TEXT_TO_DECIMAL :: "(string, rat) dict" where
  "NOTE_TEXT_TO_DECIMAL =
     [(''1+'', float_round (7 / 10)),  (''1'', float_round 1), (''1-'', float_round (13 / 10)),
      (''2+'', float_round (17 / 10)), (''2'', float_round 2), (''2-'', float_round (23 / 10)),
      (''3+'', float_round (27 / 10)), (''3'', float_round 3), (''3-'', float_round (33 / 10)),
      (''4+'', float_round (37 / 10)), (''4'', float_round 4), (''4-'', float_round (43 / 10)),
      (''5+'', float_round (47 / 10)), (''5'', float_round 5), (''5-'', float_round (53 / 10)),
      (''6'', float_round 6)]"


text \<open>
  The reverse lookup of lines 307, 368 and 393,
  \<open>[k for k,v in NOTE_TEXT_TO_DECIMAL.items() if v == grade][0]\<close>:
  the first tag whose float equals the grade, \<open>IndexError\<close> when there is none.
\<close>

definition current_text :: "rat \<Rightarrow> pyerror + string" where
  "current_text grade =
     (case filter (\<lambda>(k, v). v = grade) NOTE_TEXT_TO_DECIMAL of
        [] \<Rightarrow> Inl IndexError
      | (k, v) # _ \<Rightarrow> Inr k)"

section \<open>Subject average\<close>

definition calculate_subject_average :: "rat list \<Rightarrow> rat option" where
  "calculate_subject_average grades =
     (if grades = [] then None
      else Some (py_round (float_div (py_sum grades) (float_of_nat (length grades))) 2))"

section \<open>Record set\<close>

text \<open>
  A value that a CSV cell or a JSON field can hold: a \<open>str\<close>, or something that is not a
  \<open>str\<close> (a number, pandas' NaN for an empty cell), kept as what \<open>str()\<close> makes of it.
  Strings are lists of code points.
\<close>

datatype cell = Text string | NonText string

fun cell_str :: "cell \<Rightarrow> string" where
  "cell_str (Text s) = s"
| "cell_str (NonText s) = s"

text \<open>
  The persisted document: a dict from student id to \<open>{name, class, subjects}\<close>, where
  \<open>subjects\<close> is a dict from subject key to \<open>{name, grades}\<close>. Every entry has all its
  fields (the defaults of \<open>.get\<close> and \<open>.setdefault\<close> in the script are for entries
  that lack one, which this type excludes).
\<close>

record subject =
  subject_name :: string
  grades :: "rat list"

record student =
  name :: cell
  class_label :: cell
  subjects :: "(string, subject) dict"

type_synonym recordset = "(string, student) dict"

section \<open>Student and class averages\<close>

text \<open>The \<open>for subj in subjects_data.values()\<close> loop, with \<open>subject_avgs\<close> as accumulator.\<close>

fun subject_avgs_loop :: "subject list \<Rightarrow> rat list \<Rightarrow> rat list" where
  "subject_avgs_loop [] subject_avgs = subject_avgs"
| "subject_avgs_loop (subj # rest) subject_avgs =
     (case calculate_subject_average (grades subj) of
        None \<Rightarrow> subject_avgs_loop rest subject_avgs
      | Some avg \<Rightarrow> subject_avgs_loop rest (subject_avgs @ [avg]))"

definition calculate_student_average :: "(string, subject) dict \<Rightarrow> rat option" where
  "calculate_student_average subjects_data =
     (let subject_avgs = subject_avgs_loop (map snd subjects_data) []
      in if subject_avgs = [] then None
         else Some (py_round
                (float_div (py_sum subject_avgs) (float_of_nat (length subject_avgs))) 2))"

text \<open>
  The statistics page (lines 341 to 362): the loop over \<open>data.values()\<close> that fills
  \<open>student_avgs\<close> and \<open>all_grades\<close>, and \<open>total_avg\<close>, the class average shown by
  \<open>st.metric\<close>. Nothing is shown (\<open>None\<close>) when the record set is empty or no student
  has an average.
\<close>

fun student_avgs_loop :: "student list \<Rightarrow> rat list \<Rightarrow> rat list" where
  "student_avgs_loop [] student_avgs = student_avgs"
| "student_avgs_loop (student # rest) student_avgs =
     (case calculate_student_average (subjects student) of
        None \<Rightarrow> student_avgs_loop rest student_avgs
      | Some student_avg \<Rightarrow> student_avgs_loop rest (student_avgs @ [student_avg]))"

definition total_avg :: "recordset \<Rightarrow> rat option" where
  "total_avg data =
     (if data = [] then None
      else let student_avgs = student_avgs_loop (map snd data) []
           in if student_avgs = [] then None
              else Some (py_round
                     (float_div (py_sum student_avgs) (float_of_nat (length student_avgs))) 2))"


section \<open>Session state, messages, load and save\<close>

datatype message =
    Warning_db_unreadable
  | Error_name_empty
  | Success_student_created string
  | Success_updated
  | Success_student_deleted
  | Success_subject_added string
  | Warning_subject_exists
  | Warning_invalid_grade cell
  | Success_import
  | Error_csv pyerror

text \<open>
  \<open>noten_db.json\<close> before the script starts: no such path, a path that \<open>open\<close> cannot
  read, or a file with some text. \<open>json.load\<close> is the library's parser, a parameter here:
  it returns the record set or raises.
\<close>

datatype db_file = Missing | Unreadable | Content string

definition open_read :: "db_file \<Rightarrow> pyerror + string" where
  "open_read f = (case f of Content text \<Rightarrow> Inr text | _ \<Rightarrow> Inl OSError)"

text \<open>
  \<open>load_data\<close> returns the record set and the warnings it showed, or the exception that
  leaves it. The bare \<open>except:\<close> turns every exception of \<open>open\<close> and \<open>json.load\<close>
  into the warning.
\<close>

definition load_data ::
  "(string \<Rightarrow> pyerror + recordset) \<Rightarrow> db_file \<Rightarrow> pyerror + recordset \<times> message list" where
  "load_data json_load f =
     (if f \<noteq> Missing then
        (case (case open_read f of Inl e \<Rightarrow> Inl e | Inr text \<Rightarrow> json_load text) of
           Inr loaded \<Rightarrow> Inr (loaded, [])
         | Inl e \<Rightarrow> Inr ([], [Warning_db_unreadable]))
      else Inr ([], []))"

text \<open>
  \<open>st.session_state\<close>, the documents that \<open>save_data\<close> has written to
  \<open>noten_db.json\<close> (oldest first; the file holds the last one), and the messages shown.
\<close>

record session =
  data :: recordset
  selected_student :: "string option"
  confirm_delete_student :: "string option"
  written :: "recordset list"
  shown :: "message list"

definition save_data :: "recordset \<Rightarrow> session \<Rightarrow> session" where
  "save_data d s = s\<lparr>written := written s @ [d]\<rparr>"

definition st_show :: "message \<Rightarrow> session \<Rightarrow> session" where
  "st_show m s = s\<lparr>shown := shown s @ [m]\<rparr>"

section \<open>Page: edit students and grades\<close>

text \<open>\<open>str(n)\<close> for a natural number, as the f-string of line 205 prints the count.\<close>

function str_nat :: "nat \<Rightarrow> string" where
  "str_nat n =
     (if n < 10 then [''0123456789'' ! n]
      else str_nat (n div 10) @ [''0123456789'' ! (n mod 10)])"
  by pat_completeness auto
termination
  by (relation "measure id") auto

declare str_nat.simps [simp del]

text \<open>
  Line 205. \<open>now\<close> is \<open>datetime.now().strftime('%Y%m%d%H%M%S')\<close>, the local wall-clock
  time to the second.
\<close>

definition new_student_id :: "recordset \<Rightarrow> string \<Rightarrow> string" where
  "new_student_id d now = ''schueler_'' @ str_nat (length d + 1) @ ''_'' @ now"

text \<open>
  The handlers take \<open>str.strip\<close> and \<open>str.lower\<close> as parameters \<open>strip\<close> and
  \<open>lower\<close>: they are Python built-ins over Unicode, and nothing below depends on which
  characters they change.

  Lines 201 to 214, the form "Schueler anlegen" submitted with \<open>new_name\<close>, \<open>new_class\<close>.
\<close>

definition submit_new_student ::
  "(string \<Rightarrow> string) \<Rightarrow> string \<Rightarrow> string \<Rightarrow> string \<Rightarrow> session \<Rightarrow> session" where
  "submit_new_student strip new_name new_class now s =
     (if strip new_name = [] then st_show Error_name_empty s
      else
        let new_id = new_student_id (data s) now;
            s1 = s\<lparr>data := AList.update new_id
                     \<lparr>name = Text (strip new_name), class_label = Text (strip new_class),
                      subjects = []\<rparr> (data s)\<rparr>;
            s2 = s1\<lparr>selected_student := Some new_id\<rparr>;
            s3 = save_data (data s2) s2
        in st_show (Success_student_created new_name) s3)"

text \<open>
  Lines 217 to 220: a student is selected; \<open>data[student_id]\<close> raises \<open>KeyError\<close> for an
  id that is not there.
\<close>

definition select_student :: "string \<Rightarrow> session \<Rightarrow> pyerror + session \<times> student" where
  "select_student student_id s =
     (let s0 = s\<lparr>selected_student := Some student_id\<rparr>
      in case subscript (data s0) student_id of
           Inl e \<Rightarrow> Inl e
         | Inr student \<Rightarrow> Inr (s0, student))"

text \<open>Lines 226 to 236, the button "Aenderungen speichern".\<close>

definition save_changes ::
  "(string \<Rightarrow> string) \<Rightarrow> string \<Rightarrow> string \<Rightarrow> string \<Rightarrow> session \<Rightarrow> pyerror + session" where
  "save_changes strip student_id new_name new_class s =
     (case select_student student_id s of
        Inl e \<Rightarrow> Inl e
      | Inr (s0, student) \<Rightarrow>
          if strip new_name = [] then Inr (st_show Error_name_empty s0)
          else
            let s1 = s0\<lparr>data := AList.map_entry student_id
                          (\<lambda>student. student\<lparr>name := Text (strip new_name),
                                               class_label := Text (strip new_class)\<rparr>) (data s0)\<rparr>;
                s2 = save_data (data s1) s1
            in Inr (st_show Success_updated s2))"

text \<open>Lines 239 to 251: "Schueler loeschen", then "Ja, loeschen".\<close>

definition click_delete :: "string \<Rightarrow> session \<Rightarrow> pyerror + session" where
  "click_delete student_id s =
     (case select_student student_id s of
        Inl e \<Rightarrow> Inl e
      | Inr (s0, student) \<Rightarrow> Inr (s0\<lparr>confirm_delete_student := Some student_id\<rparr>))"

definition confirm_delete :: "string \<Rightarrow> session \<Rightarrow> pyerror + session" where
  "confirm_delete student_id s =
     (case select_student student_id s of
        Inl e \<Rightarrow> Inl e
      | Inr (s0, student) \<Rightarrow>
          if confirm_delete_student s0 = Some student_id then
            let s1 = s0\<lparr>data := AList.delete student_id (data s0)\<rparr>;
                s2 = s1\<lparr>selected_student := None\<rparr>;
                s3 = save_data (data s2) s2
            in Inr (st_show Success_student_deleted s3)
          else Inr s0)"

text \<open>\<open>.replace(" ", "_")\<close>, and the subject key of lines 263 and 425.\<close>

definition replace_spaces :: "string \<Rightarrow> string" where
  "replace_spaces text = map (\<lambda>c. if c = CHR '' '' then CHR ''_'' else c) text"

text \<open>Lines 261 to 270, the button "Fach hinzufuegen" with the text \<open>new_subject\<close>.\<close>

definition add_subject ::
  "(string \<Rightarrow> string) \<Rightarrow> (string \<Rightarrow> string) \<Rightarrow> string \<Rightarrow> string \<Rightarrow> session
     \<Rightarrow> pyerror + session" where
  "add_subject lower strip student_id new_subject s =
     (case select_student student_id s of
        Inl e \<Rightarrow> Inl e
      | Inr (s0, student) \<Rightarrow>
          if strip new_subject \<noteq> [] then
            let subj_key = replace_spaces (lower (strip new_subject))
            in if subj_key \<notin> set (map fst (subjects student)) then
                 let s1 = s0\<lparr>data := AList.map_entry student_id
                               (\<lambda>student. student\<lparr>subjects := AList.update subj_key
                                    \<lparr>subject_name = strip new_subject, grades = []\<rparr>
                                    (subjects student)\<rparr>) (data s0)\<rparr>;
                     s2 = save_data (data s1) s1
                 in Inr (st_show (Success_subject_added new_subject) s2)
               else Inr (st_show Warning_subject_exists s0)
          else Inr s0)"

section \<open>Page: statistics, CSV import\<close>

text \<open>
  A row of the uploaded table maps a column name to its cell; \<open>row[c]\<close> raises \<open>KeyError\<close>
  for a column the file does not have, \<open>row.get(c, d)\<close> gives \<open>d\<close>.
\<close>

type_synonym row = "string \<Rightarrow> cell option"

definition col_id :: string where
  "col_id = ''Sch'' @ [CHR 0xFC] @ ''ler-ID''"

text \<open>
  The three places where the loop body writes to the record set: line 419 (a new student
  with no subjects), lines 426 and 427 (a new subject with no grades, when the key is not
  among the student's subjects), and line 430 (the grade appended to the subject's list).
\<close>

definition create_student :: "string \<Rightarrow> cell \<Rightarrow> cell \<Rightarrow> recordset \<Rightarrow> recordset" where
  "create_student sid n k d =
     AList.update sid \<lparr>name = n, class_label = k, subjects = []\<rparr> d"

definition create_subject_if_unseen ::
  "string \<Rightarrow> string \<Rightarrow> string \<Rightarrow> recordset \<Rightarrow> recordset" where
  "create_subject_if_unseen sid subj_key subj_name d =
     AList.map_entry sid
       (\<lambda>student.
          if subj_key \<notin> set (map fst (subjects student)) then
            student\<lparr>subjects := AList.update subj_key
               \<lparr>subject_name = subj_name, grades = []\<rparr> (subjects student)\<rparr>
          else student) d"

definition append_grade :: "string \<Rightarrow> string \<Rightarrow> rat \<Rightarrow> recordset \<Rightarrow> recordset" where
  "append_grade sid subj_key decimal d =
     AList.map_entry sid
       (\<lambda>student. student\<lparr>subjects := AList.map_entry subj_key
            (\<lambda>subj. subj\<lparr>grades := grades subj @ [decimal]\<rparr>) (subjects student)\<rparr>) d"

text \<open>
  One pass of the loop body, lines 417 to 432, on the record set and the messages shown so
  far. The result is the state the pass leaves, and the exception that leaves the loop if
  there is one: a missing column, or a subject cell that has no \<open>.lower()\<close>. A
  \<open>KeyError\<close> of the grade lookup is caught and becomes a warning; when the grade column
  itself is missing, the warning's f-string raises it again.
\<close>

fun import_row ::
  "(string \<Rightarrow> string) \<Rightarrow> row \<Rightarrow> recordset \<times> message list
     \<Rightarrow> (recordset \<times> message list) \<times> pyerror option" where
  "import_row lower row (d, msgs) =
     (case row col_id of
        None \<Rightarrow> ((d, msgs), Some KeyError)
      | Some id_cell \<Rightarrow>
          (let sid = cell_str id_cell
           in (case (if sid \<notin> set (map fst d) then
                       (case row ''Name'' of
                          None \<Rightarrow> Inl KeyError
                        | Some n \<Rightarrow>
                            Inr (create_student sid n
                                   (case row ''Klasse'' of None \<Rightarrow> Text [] | Some k \<Rightarrow> k) d))
                     else Inr d) of
                 Inl e \<Rightarrow> ((d, msgs), Some e)
               | Inr d1 \<Rightarrow>
                   (case row ''Fach'' of
                      None \<Rightarrow> ((d1, msgs), Some KeyError)
                    | Some (NonText v) \<Rightarrow> ((d1, msgs), Some AttributeError)
                    | Some (Text subj_name) \<Rightarrow>
                        (let subj_key = replace_spaces (lower subj_name);
                             d2 = create_subject_if_unseen sid subj_key subj_name d1
                         in (case row ''Note (Text)'' of
                               None \<Rightarrow> ((d2, msgs), Some KeyError)
                             | Some tag \<Rightarrow>
                                 (case (case tag of
                                          Text t \<Rightarrow> subscript NOTE_TEXT_TO_DECIMAL t
                                        | NonText v \<Rightarrow> Inl KeyError) of
                                    Inl e \<Rightarrow> ((d2, msgs @ [Warning_invalid_grade tag]), None)
                                  | Inr decimal \<Rightarrow>
                                      ((append_grade sid subj_key decimal d2, msgs),
                                       None))))))))"

declare import_row.simps [simp del]

fun import_loop ::
  "(string \<Rightarrow> string) \<Rightarrow> row list \<Rightarrow> recordset \<times> message list
     \<Rightarrow> (recordset \<times> message list) \<times> pyerror option" where
  "import_loop lower [] st = (st, None)"
| "import_loop lower (row # rest) st =
     (case import_row lower row st of
        (st1, Some e) \<Rightarrow> (st1, Some e)
      | (st1, None) \<Rightarrow> import_loop lower rest st1)"

text \<open>
  Lines 415 to 437, the button "Import jetzt ausfuehren" on the parsed rows: the loop, then
  one \<open>save_data\<close>; an exception that left the loop is shown by \<open>st.error\<close> instead.
\<close>

definition import_click :: "(string \<Rightarrow> string) \<Rightarrow> row list \<Rightarrow> session \<Rightarrow> session" where
  "import_click lower rows s =
     (case import_loop lower rows (data s, shown s) of
        ((d, msgs), None) \<Rightarrow>
          let s1 = s\<lparr>data := d, shown := msgs\<rparr>;
              s2 = save_data (data s1) s1
          in st_show Success_import s2
      | ((d, msgs), Some e) \<Rightarrow> st_show (Error_csv e) (s\<lparr>data := d, shown := msgs\<rparr>))"

section \<open>Sequences of create and delete actions\<close>

text \<open>
  Creating a student is one submit of the form; deleting one is "Schueler loeschen"
  followed by "Ja, loeschen" on the selected student.
\<close>

datatype action = Create string string string | Delete string

fun perform :: "(string \<Rightarrow> string) \<Rightarrow> action \<Rightarrow> session \<Rightarrow> pyerror + session" where
  "perform strip (Create new_name new_class now) s =
     Inr (submit_new_student strip new_name new_class now s)"
| "perform strip (Delete student_id) s =
     (case click_delete student_id s of
        Inl e \<Rightarrow> Inl e
      | Inr s1 \<Rightarrow> confirm_delete student_id s1)"

fun perform_all :: "(string \<Rightarrow> string) \<Rightarrow> action list \<Rightarrow> session \<Rightarrow> pyerror + session" where
  "perform_all strip [] s = Inr s"
| "perform_all strip (a # rest) s =
     (case perform strip a s of
        Inl e \<Rightarrow> Inl e
      | Inr s1 \<Rightarrow> perform_all strip rest s1)"

section \<open>What "only extended" means\<close>







section \<open>Exact arithmetic, for comparison\<close>

text \<open>
  What the averages are measured against: the arithmetic mean of a list as a rational
  number, and that mean rounded to two decimal places (a tie goes to the even digit, as
  in Python). \<open>unit_roundoff\<close> is the largest relative error of one float operation.
  \<open>subject_averages\<close> are the averages of the subjects that have grades, in the order of
  the dict; \<open>student_averages\<close> are the averages of the students that have one.
\<close>

definition exact_mean :: "rat list \<Rightarrow> rat" where
  "exact_mean xs = sum_list xs / of_nat (length xs)"

definition mean_rounded :: "rat list \<Rightarrow> rat" where
  "mean_rounded xs = of_int (round_half_even (exact_mean xs * 100)) / 100"

definition unit_roundoff :: rat where
  "unit_roundoff = 1 / 2 ^ 53"

definition subject_averages :: "(string, subject) dict \<Rightarrow> rat list" where
  "subject_averages subjects_data =
     map (\<lambda>(key, subj). the (calculate_subject_average (grades subj)))
       (filter (\<lambda>(key, subj). grades subj \<noteq> []) subjects_data)"

definition student_averages :: "recordset \<Rightarrow> rat list" where
  "student_averages d =
     map (\<lambda>(sid, student). the (calculate_student_average (subjects student)))
       (filter (\<lambda>(sid, student). calculate_student_average (subjects student) \<noteq> None) d)"

section \<open>Example inputs\<close>

text \<open>Concrete stand-ins for \<open>str.strip\<close> and \<open>str.lower\<close> on ASCII text.\<close>

definition ascii_strip :: "string \<Rightarrow> string" where
  "ascii_strip text =
     rev (dropWhile (\<lambda>c. c = CHR '' '') (rev (dropWhile (\<lambda>c. c = CHR '' '') text)))"

definition ascii_lower :: "string \<Rightarrow> string" where
  "ascii_lower text =
     map (\<lambda>c. let n = (of_char c :: nat) in if 65 \<le> n \<and> n \<le> 90 then char_of (n + 32) else c)
       text"

definition anna :: student where
  "anna = \<lparr>name = Text ''Anna'', class_label = Text ''5a'',
            subjects = [(''mathe_kurs'',
                         \<lparr>subject_name = ''Mathe Kurs'', grades = [float_round 2]\<rparr>)]\<rparr>"

definition session1 :: session where
  "session1 = \<lparr>data = [(''s1'', anna)], selected_student = None,
                confirm_delete_student = None, written = [], shown = []\<rparr>"

definition empty_session :: session where
  "empty_session = \<lparr>data = [], selected_student = None, confirm_delete_student = None,
                     written = [], shown = []\<rparr>"









text \<open>
  The subjects of the spec's two examples, and four subjects (and four students) with one
  grade each: "1", "1", "1-", "1".
\<close>

definition subjects_a_b :: "(string, subject) dict" where
  "subjects_a_b =
     [(''a'', \<lparr>subject_name = ''A'', grades = [float_round 1, float_round 2]\<rparr>),
      (''b'', \<lparr>subject_name = ''B'', grades = []\<rparr>)]"

definition subjects_1_1_6 :: "(string, subject) dict" where
  "subjects_1_1_6 =
     [(''a'', \<lparr>subject_name = ''A'', grades = [float_round 1, float_round 1]\<rparr>),
      (''b'', \<lparr>subject_name = ''B'', grades = [float_round 6]\<rparr>)]"

definition one_grade :: "string \<Rightarrow> rat \<Rightarrow> string \<times> subject" where
  "one_grade subj_name g = (subj_name, \<lparr>subject_name = subj_name, grades = [g]\<rparr>)"

definition four_subjects :: "(string, subject) dict" where
  "four_subjects =
     [one_grade ''mathe'' (float_round 1), one_grade ''deutsch'' (float_round 1),
      one_grade ''englisch'' (float_round (13 / 10)), one_grade ''sport'' (float_round 1)]"

definition one_subject :: "string \<Rightarrow> rat \<Rightarrow> string \<times> student" where
  "one_subject sid g =
     (sid, \<lparr>name = Text sid, class_label = Text ''5a'', subjects = [one_grade ''mathe'' g]\<rparr>)"

definition four_students :: recordset where
  "four_students =
     [one_subject ''s1'' (float_round 1), one_subject ''s2'' (float_round 1),
      one_subject ''s3'' (float_round (13 / 10)), one_subject ''s4'' (float_round 1)]"

section \<open>Grade scale: the tags and their floats\<close>

lemma float_literals:
  "float_round (7 / 10) = 3152519739159347 / 4503599627370496"
  "float_round (13 / 10) = 5854679515581645 / 4503599627370496"
  "float_round (17 / 10) = 7656119366529843 / 4503599627370496"
  "float_round (23 / 10) = 2589569785738035 / 1125899906842624"
  "float_round (27 / 10) = 3039929748475085 / 1125899906842624"
  "float_round (33 / 10) = 3715469692580659 / 1125899906842624"
  "float_round (37 / 10) = 4165829655317709 / 1125899906842624"
  "float_round (43 / 10) = 4841369599423283 / 1125899906842624"
  "float_round (47 / 10) = 5291729562160333 / 1125899906842624"
  "float_round (53 / 10) = 5967269506265907 / 1125899906842624"
  "float_round 1 = 1" "float_round 2 = 2" "float_round 3 = 3"
  "float_round 4 = 4" "float_round 5 = 5" "float_round 6 = 6"
  by code_simp+

lemma scale_values:
  "NOTE_TEXT_TO_DECIMAL =
     [(''1+'', 3152519739159347 / 4503599627370496), (''1'', 1),
      (''1-'', 5854679515581645 / 4503599627370496),
      (''2+'', 7656119366529843 / 4503599627370496), (''2'', 2),
      (''2-'', 2589569785738035 / 1125899906842624),
      (''3+'', 3039929748475085 / 1125899906842624), (''3'', 3),
      (''3-'', 3715469692580659 / 1125899906842624),
      (''4+'', 4165829655317709 / 1125899906842624), (''4'', 4),
      (''4-'', 4841369599423283 / 1125899906842624),
      (''5+'', 5291729562160333 / 1125899906842624), (''5'', 5),
      (''5-'', 5967269506265907 / 1125899906842624), (''6'', 6)]"
  unfolding NOTE_TEXT_TO_DECIMAL_def float_literals by (rule refl)

lemma distinct_snd_unique:
  assumes "distinct (map snd xs)" and "(a, v) \<in> set xs" and "(b, v) \<in> set xs"
  shows "a = b"
proof -
  from assms(1) have "inj_on snd (set xs)"
    by (simp add: distinct_map)
  from inj_onD [OF this, of "(a, v)" "(b, v)"] assms(2,3) show ?thesis
    by simp
qed

text \<open>
  C2. The grade scale has 16 tags with pairwise different floats between the float \<open>0.7\<close>
  and \<open>6.0\<close>. For every entry, the forward lookup of the tag gives its float and the
  reverse lookup of that float (by equality of floats) gives the tag back, and every float
  of the scale belongs to exactly one tag.
\<close>

theorem grade_scale_invertible:
  "length NOTE_TEXT_TO_DECIMAL = 16
   \<and> distinct (map fst NOTE_TEXT_TO_DECIMAL)
   \<and> distinct (map snd NOTE_TEXT_TO_DECIMAL)
   \<and> (\<forall>(tag, v) \<in> set NOTE_TEXT_TO_DECIMAL.
         subscript NOTE_TEXT_TO_DECIMAL tag = Inr v \<and> current_text v = Inr tag
         \<and> float_round (7 / 10) \<le> v \<and> v \<le> float_round 6)
   \<and> (\<forall>v \<in> snd ` set NOTE_TEXT_TO_DECIMAL. \<exists>!tag. (tag, v) \<in> set NOTE_TEXT_TO_DECIMAL)"
proof -
  have len: "length NOTE_TEXT_TO_DECIMAL = 16"
    by (simp add: scale_values)
  have tags: "distinct (map fst NOTE_TEXT_TO_DECIMAL)"
    by (simp add: scale_values)
  have vals: "distinct (map snd NOTE_TEXT_TO_DECIMAL)"
    by (simp add: scale_values)
  have trip: "\<forall>(tag, v) \<in> set NOTE_TEXT_TO_DECIMAL.
         subscript NOTE_TEXT_TO_DECIMAL tag = Inr v \<and> current_text v = Inr tag
         \<and> float_round (7 / 10) \<le> v \<and> v \<le> float_round 6"
    by (simp add: subscript_def current_text_def float_literals scale_values)
  have one: "\<forall>v \<in> snd ` set NOTE_TEXT_TO_DECIMAL. \<exists>!tag. (tag, v) \<in> set NOTE_TEXT_TO_DECIMAL"
  proof
    fix v assume "v \<in> snd ` set NOTE_TEXT_TO_DECIMAL"
    then obtain tag where "(tag, v) \<in> set NOTE_TEXT_TO_DECIMAL" by auto
    then show "\<exists>!tag. (tag, v) \<in> set NOTE_TEXT_TO_DECIMAL"
      using distinct_snd_unique [OF vals] by blast
  qed
  from len tags vals trip one show ?thesis by blast
qed

theorem grade_scale_invertible_witness:
  "(''2-'', float_round (23 / 10)) \<in> set NOTE_TEXT_TO_DECIMAL
   \<and> subscript NOTE_TEXT_TO_DECIMAL ''2-'' = Inr (float_round (23 / 10))
   \<and> current_text (float_round (23 / 10)) = Inr ''2-''"
proof -
  have m: "(''2-'', float_round (23 / 10)) \<in> set NOTE_TEXT_TO_DECIMAL"
    by (simp add: NOTE_TEXT_TO_DECIMAL_def)
  from grade_scale_invertible have
    "\<forall>(tag, v) \<in> set NOTE_TEXT_TO_DECIMAL.
         subscript NOTE_TEXT_TO_DECIMAL tag = Inr v \<and> current_text v = Inr tag
         \<and> float_round (7 / 10) \<le> v \<and> v \<le> float_round 6"
    by blast
  with m show ?thesis by blast
qed

section \<open>Rounding error of the float operations\<close>

subsection \<open>Powers of two and the binary exponent\<close>

text \<open>
  \<open>float_round x\<close> differs from \<open>x\<close> by at most \<open>x * unit_roundoff\<close>. This is proved for
  \<open>x\<close> from 1/4 on, which covers every sum, quotient and average of grades.
\<close>

lemma unit_roundoff_range: "0 < unit_roundoff" "unit_roundoff \<le> 1 / (8 * 10 ^ 15)"
  by (simp_all add: unit_roundoff_def)

lemma pow2_powi: "pow2 e = 2 powi e"
  by (simp add: pow2_def power_int_def inverse_eq_divide power_one_over)

lemma pow2_pos: "0 < pow2 e"
  by (simp add: pow2_powi zero_less_power_int)

lemma pow2_add: "pow2 (a + b) = pow2 a * pow2 b"
  by (simp add: pow2_powi power_int_add)

lemma pow2_diff: "pow2 (a - b) = pow2 a / pow2 b"
  by (simp add: pow2_powi power_int_diff)

lemma pow2_nat: "pow2 (int n) = 2 ^ n"
  by (simp add: pow2_def)

lemma pow2_mono: "a \<le> b \<Longrightarrow> pow2 a \<le> pow2 b"
  by (simp add: pow2_powi power_int_increasing)

lemma pow2_less_imp:
  assumes "pow2 a < pow2 b"
  shows "a < b"
proof (rule ccontr)
  assume "\<not> a < b"
  then have "pow2 b \<le> pow2 a" by (simp add: pow2_mono)
  with assms show False by simp
qed

lemma ilog2_bounds:
  assumes "0 < x"
  shows "pow2 (ilog2 x) \<le> x \<and> x < pow2 (ilog2 x + 1)"
proof -
  obtain p q where pq: "quotient_of x = (p, q)"
    by (cases "quotient_of x")
  have q: "0 < q" using pq by (rule quotient_of_denom_pos)
  have x: "x = of_int p / of_int q" using pq by (rule quotient_of_div)
  have p: "0 < p"
    using assms q by (simp add: x zero_less_divide_iff)
  define bp where "bp = bitlen p"
  define bq where "bq = bitlen q"
  have bp1: "1 \<le> bp" and bq1: "1 \<le> bq"
    using p q bitlen_eq_zero_iff [of p] bitlen_eq_zero_iff [of q] bitlen_nonneg [of p]
      bitlen_nonneg [of q]
    by (auto simp: bp_def bq_def)
  have "2 ^ nat (bp - 1) \<le> p" "p < 2 ^ nat bp" "2 ^ nat (bq - 1) \<le> q" "q < 2 ^ nat bq"
    using bitlen_bounds [OF p] bitlen_bounds [OF q] by (simp_all add: bp_def bq_def)
  then have "(of_int (2 ^ nat (bp - 1)) :: rat) \<le> of_int p"
    "(of_int p :: rat) < of_int (2 ^ nat bp)"
    "(of_int (2 ^ nat (bq - 1)) :: rat) \<le> of_int q"
    "(of_int q :: rat) < of_int (2 ^ nat bq)"
    by (simp_all only: of_int_le_iff of_int_less_iff)
  then have P: "pow2 (bp - 1) \<le> of_int p" "of_int p < pow2 bp"
    and Q: "pow2 (bq - 1) \<le> of_int q" "of_int q < pow2 bq"
    using bp1 bq1 by (simp_all add: pow2_def)
  have qpos: "(0::rat) < of_int q" using q by simp
  have up: "x < pow2 (bp - bq + 1)"
  proof -
    have "of_int p < pow2 bp" by (rule P)
    also have "pow2 bp = pow2 (bp - bq + 1) * pow2 (bq - 1)"
      by (simp add: pow2_add [symmetric])
    also have "\<dots> \<le> pow2 (bp - bq + 1) * of_int q"
      using Q(1) pow2_pos [of "bp - bq + 1"] by (simp add: mult_left_mono)
    finally show ?thesis
      using qpos by (simp add: x pos_divide_less_eq)
  qed
  have lo: "pow2 (bp - bq - 1) \<le> x"
  proof -
    have "pow2 (bp - bq - 1) * of_int q \<le> pow2 (bp - bq - 1) * pow2 bq"
      using Q(2) pow2_pos [of "bp - bq - 1"] by (simp add: mult_left_mono)
    also have "\<dots> = pow2 (bp - 1)"
      by (simp add: pow2_add [symmetric])
    also have "\<dots> \<le> of_int p" by (rule P)
    finally show ?thesis
      using qpos by (simp add: x pos_le_divide_eq)
  qed
  show ?thesis
  proof (cases "pow2 (bp - bq) \<le> x")
    case True
    then have "ilog2 x = bp - bq"
      by (simp add: ilog2_def pq bp_def bq_def)
    with True up show ?thesis by simp
  next
    case False
    then have "ilog2 x = bp - bq - 1"
      by (simp add: ilog2_def pq bp_def bq_def)
    with False lo show ?thesis by simp
  qed
qed

lemma ilog2_ge:
  assumes "pow2 a \<le> x"
  shows "a \<le> ilog2 x"
proof -
  have "0 < x" using assms pow2_pos [of a] by simp
  then have "x < pow2 (ilog2 x + 1)" using ilog2_bounds by blast
  with assms have "pow2 a < pow2 (ilog2 x + 1)" by simp
  then have "a < ilog2 x + 1" by (rule pow2_less_imp)
  then show ?thesis by simp
qed

lemma round_half_even_error: "\<bar>of_int (round_half_even y) - y\<bar> \<le> 1 / 2"
proof -
  have "of_int \<lfloor>y\<rfloor> \<le> y" "y < of_int \<lfloor>y\<rfloor> + 1"
    by linarith+
  then show ?thesis
    by (auto simp: round_half_even_def Let_def)
qed

lemma float_round_error:
  assumes "1 / 4 \<le> x"
  shows "\<bar>float_round x - x\<bar> \<le> x * unit_roundoff"
proof -
  have x0: "0 < x" using assms by simp
  have "pow2 (- 2) \<le> x" using assms by (simp add: pow2_def)
  then have ge: "- 2 \<le> ilog2 x" by (rule ilog2_ge)
  define e where "e = ilog2 x - 52"
  have e: "max (ilog2 \<bar>x\<bar> - 52) (- 1074) = e"
    using ge x0 by (simp add: e_def)
  have fr: "float_round x = of_int (round_half_even (x / pow2 e)) * pow2 e"
    using x0 e by (simp add: float_round_def Let_def)
  have "float_round x - x = (of_int (round_half_even (x / pow2 e)) - x / pow2 e) * pow2 e"
    using pow2_pos [of e] by (simp add: fr left_diff_distrib)
  then have "\<bar>float_round x - x\<bar> = \<bar>of_int (round_half_even (x / pow2 e)) - x / pow2 e\<bar> * pow2 e"
    using pow2_pos [of e] by (simp add: abs_mult)
  also have "\<dots> \<le> 1 / 2 * pow2 e"
    using round_half_even_error [of "x / pow2 e"] pow2_pos [of e]
    by (simp add: mult_right_mono)
  also have "1 / 2 * pow2 e = pow2 (ilog2 x) / 2 ^ 53"
  proof -
    have "pow2 52 = 2 ^ 52" by (simp add: pow2_def)
    then show ?thesis by (simp add: e_def pow2_diff)
  qed
  also have "\<dots> \<le> x / 2 ^ 53"
    using ilog2_bounds [OF x0] by (simp add: divide_right_mono)
  finally show ?thesis by (simp add: unit_roundoff_def)
qed

subsection \<open>One operation, a sum, a mean\<close>

text \<open>
  A sum of \<open>n\<close> floats from left to right lies between \<open>(1 - u)^n\<close> and \<open>(1 + u)^n\<close>
  times the exact sum, \<open>u\<close> the unit roundoff; for up to a million items that is within
  \<open>10^-9\<close> of it, relatively. Dividing by the length adds two more roundings, so the float
  mean of numbers between 1/2 and 7 is within \<open>10^-8\<close> of the exact mean.
\<close>

lemma float_round_bounds:
  assumes "1 / 4 \<le> x"
  shows "(1 - unit_roundoff) * x \<le> float_round x"
    and "float_round x \<le> (1 + unit_roundoff) * x"
  using float_round_error [OF assms] by (simp_all add: abs_le_iff algebra_simps)

lemma float_round_nonneg:
  assumes "1 / 4 \<le> x"
  shows "0 \<le> float_round x"
proof -
  have "0 \<le> (1 - unit_roundoff) * x"
    using assms unit_roundoff_range by (intro mult_nonneg_nonneg) simp_all
  with float_round_bounds(1) [OF assms] show ?thesis by simp
qed

lemma float_add_bounds:
  assumes "0 \<le> a" and "1 / 4 \<le> x"
  shows "(1 - unit_roundoff) * (a + x) \<le> float_add a x"
    and "float_add a x \<le> (1 + unit_roundoff) * (a + x)"
    and "0 \<le> float_add a x"
proof -
  have ax: "1 / 4 \<le> a + x" using assms by simp
  from float_round_bounds [OF ax] float_round_nonneg [OF ax]
  show "(1 - unit_roundoff) * (a + x) \<le> float_add a x"
    and "float_add a x \<le> (1 + unit_roundoff) * (a + x)"
    and "0 \<le> float_add a x"
    by (simp_all add: float_add_def)
qed

lemma foldl_float_add_bounds:
  assumes "\<forall>x\<in>set xs. 1 / 4 \<le> x" and "0 \<le> a"
  shows "(1 - unit_roundoff) ^ length xs * (a + sum_list xs) \<le> foldl float_add a xs
       \<and> foldl float_add a xs \<le> (1 + unit_roundoff) ^ length xs * (a + sum_list xs)"
  using assms
proof (induction xs arbitrary: a)
  case Nil
  then show ?case by simp
next
  case (Cons x xs)
  let ?u = unit_roundoff
  let ?n = "length xs"
  let ?S = "sum_list xs"
  let ?T = "a + x + ?S"
  let ?fa = "float_add a x"
  from Cons.prems have x: "1 / 4 \<le> x" and xs: "\<forall>x\<in>set xs. 1 / 4 \<le> x"
    by simp_all
  have S: "0 \<le> ?S"
    using xs by (intro sum_list_nonneg) force
  have u: "0 \<le> ?u" "?u \<le> 1"
    using unit_roundoff_range by simp_all
  note b = float_add_bounds [OF Cons.prems(2) x]
  from Cons.IH [OF xs b(3)]
  have lo: "(1 - ?u) ^ ?n * (?fa + ?S) \<le> foldl float_add ?fa xs"
    and hi: "foldl float_add ?fa xs \<le> (1 + ?u) ^ ?n * (?fa + ?S)"
    by simp_all
  have p1: "0 \<le> (1 - ?u) ^ ?n" and p2: "0 \<le> (1 + ?u) ^ ?n"
    using u by simp_all
  have uS: "0 \<le> ?u * ?S"
    using u S by simp
  have "(1 - ?u) * ?T \<le> ?fa + ?S"
    using b(1) uS by (simp add: algebra_simps)
  then have "(1 - ?u) ^ ?n * ((1 - ?u) * ?T) \<le> (1 - ?u) ^ ?n * (?fa + ?S)"
    using p1 by (rule mult_left_mono)
  also note lo
  finally have L: "(1 - ?u) ^ Suc ?n * ?T \<le> foldl float_add ?fa xs"
    by (simp add: mult_ac)
  have "?fa + ?S \<le> (1 + ?u) * ?T"
    using b(2) uS by (simp add: algebra_simps)
  then have "(1 + ?u) ^ ?n * (?fa + ?S) \<le> (1 + ?u) ^ ?n * ((1 + ?u) * ?T)"
    using p2 by (rule mult_left_mono)
  with hi have "foldl float_add ?fa xs \<le> (1 + ?u) ^ ?n * ((1 + ?u) * ?T)"
    by (rule order_trans)
  then have H: "foldl float_add ?fa xs \<le> (1 + ?u) ^ Suc ?n * ?T"
    by (simp add: mult_ac)
  from L H show ?case
    by (simp add: add.assoc)
qed

lemma power_upper:
  fixes u :: rat
  assumes "0 \<le> u" and "2 * of_nat k * u \<le> 1"
  shows "(1 + u) ^ k \<le> 1 + 2 * of_nat k * u"
  using assms(2)
proof (induction k)
  case 0
  then show ?case by simp
next
  case (Suc k)
  have k: "2 * of_nat k * u \<le> 1"
    using Suc.prems assms(1) by (simp add: algebra_simps)
  have "(1 + u) ^ Suc k = (1 + u) * (1 + u) ^ k" by simp
  also have "\<dots> \<le> (1 + u) * (1 + 2 * of_nat k * u)"
    using Suc.IH [OF k] assms(1) by (intro mult_left_mono) simp_all
  also have "\<dots> = 1 + 2 * of_nat k * u + u + (2 * of_nat k * u) * u"
    by (simp add: algebra_simps)
  also have "\<dots> \<le> 1 + 2 * of_nat k * u + u + 1 * u"
    using mult_right_mono [OF k assms(1)] by simp
  also have "\<dots> = 1 + 2 * of_nat (Suc k) * u"
    by (simp add: algebra_simps)
  finally show ?case .
qed

lemma power_lower:
  fixes u :: rat
  assumes "0 \<le> u" and "u \<le> 1"
  shows "1 - of_nat k * u \<le> (1 - u) ^ k"
proof (induction k)
  case 0
  then show ?case by simp
next
  case (Suc k)
  have "0 \<le> of_nat k * u * u"
    using assms(1) by simp
  then have "1 - of_nat (Suc k) * u \<le> (1 - u) * (1 - of_nat k * u)"
    by (simp add: algebra_simps)
  also have "\<dots> \<le> (1 - u) * (1 - u) ^ k"
    using Suc.IH assms(2) by (intro mult_left_mono) simp_all
  finally show ?case by simp
qed

lemma py_sum_bounds:
  assumes "\<forall>x\<in>set xs. 1 / 4 \<le> x" and "length xs \<le> 1000000"
  shows "(1 - 1 / 10 ^ 9) * sum_list xs \<le> py_sum xs"
    and "py_sum xs \<le> (1 + 1 / 10 ^ 9) * sum_list xs"
proof -
  let ?u = unit_roundoff
  let ?n = "length xs"
  have S: "0 \<le> sum_list xs"
    using assms(1) by (intro sum_list_nonneg) force
  have n: "(of_nat ?n :: rat) \<le> 1000000"
    using assms(2) by (metis of_nat_le_iff of_nat_numeral)
  have u: "0 \<le> ?u" "?u \<le> 1" "?u \<le> 1 / (8 * 10 ^ 15)"
    using unit_roundoff_range by simp_all
  have nu: "of_nat ?n * ?u \<le> 1000000 * (1 / (8 * 10 ^ 15))"
    using n u by (intro mult_mono) simp_all
  from foldl_float_add_bounds [OF assms(1), of 0]
  have lo: "(1 - ?u) ^ ?n * sum_list xs \<le> py_sum xs"
    and hi: "py_sum xs \<le> (1 + ?u) ^ ?n * sum_list xs"
    by (simp_all add: py_sum_def)
  have "2 * of_nat ?n * ?u \<le> 1"
    using nu by simp
  with power_upper [of ?u ?n] u have "(1 + ?u) ^ ?n \<le> 1 + 2 * of_nat ?n * ?u"
    by simp
  also have "\<dots> \<le> 1 + 1 / 10 ^ 9"
    using nu by simp
  finally have "(1 + ?u) ^ ?n * sum_list xs \<le> (1 + 1 / 10 ^ 9) * sum_list xs"
    using S by (rule mult_right_mono)
  with hi show "py_sum xs \<le> (1 + 1 / 10 ^ 9) * sum_list xs"
    by simp
  have "1 - 1 / 10 ^ 9 \<le> 1 - of_nat ?n * ?u"
    using nu by simp
  also have "\<dots> \<le> (1 - ?u) ^ ?n"
    using u by (intro power_lower) simp_all
  finally have "(1 - 1 / 10 ^ 9) * sum_list xs \<le> (1 - ?u) ^ ?n * sum_list xs"
    using S by (rule mult_right_mono)
  with lo show "(1 - 1 / 10 ^ 9) * sum_list xs \<le> py_sum xs"
    by simp
qed

lemma sum_list_bounds:
  fixes xs :: "rat list"
  assumes "\<forall>x\<in>set xs. lo \<le> x \<and> x \<le> hi"
  shows "lo * of_nat (length xs) \<le> sum_list xs \<and> sum_list xs \<le> hi * of_nat (length xs)"
  using assms by (induction xs) (auto simp: algebra_simps)

lemma exact_mean_bounds:
  assumes "xs \<noteq> []" and "\<forall>x\<in>set xs. lo \<le> x \<and> x \<le> hi"
  shows "lo \<le> exact_mean xs" and "exact_mean xs \<le> hi"
proof -
  have n: "(0::rat) < of_nat (length xs)"
    using assms(1) by simp
  from sum_list_bounds [OF assms(2)] n
  show "lo \<le> exact_mean xs" and "exact_mean xs \<le> hi"
    by (simp_all add: exact_mean_def pos_le_divide_eq pos_divide_le_eq)
qed

lemma float_mean_error:
  assumes ne: "xs \<noteq> []" and len: "length xs \<le> 1000000"
    and rng: "\<forall>x\<in>set xs. lo \<le> x \<and> x \<le> hi" and lo: "1 / 2 \<le> lo" and hi: "hi \<le> 7"
  shows "\<bar>float_div (py_sum xs) (float_of_nat (length xs)) - exact_mean xs\<bar> \<le> 1 / 10 ^ 8"
    and "1 / 4 \<le> float_div (py_sum xs) (float_of_nat (length xs))"
proof -
  let ?u = unit_roundoff
  let ?c = "1 / 10 ^ 9 :: rat"
  define n :: rat where "n = of_nat (length xs)"
  define n' where "n' = float_of_nat (length xs)"
  define S where "S = sum_list xs"
  define s where "s = py_sum xs"
  define M where "M = exact_mean xs"
  define t where "t = s / n'"
  define q where "q = float_div s n'"
  have u: "0 < ?u" "?u \<le> 1 / (8 * 10 ^ 15)"
    by (rule unit_roundoff_range)+
  have n1: "1 \<le> n"
    using ne by (cases xs) (simp_all add: n_def)
  have quarter: "\<forall>x\<in>set xs. 1 / 4 \<le> x"
    using rng lo by force
  have M: "lo \<le> M" "M \<le> hi"
    using exact_mean_bounds [OF ne rng] by (simp_all add: M_def)
  have SM: "S = M * n"
    using n1 by (simp add: S_def M_def exact_mean_def n_def)
  have S0: "0 \<le> S"
    using M lo n1 by (simp add: SM)
  have n'lo: "(1 - ?u) * n \<le> n'" and n'hi: "n' \<le> (1 + ?u) * n"
    using float_round_bounds [of n] n1 by (simp_all add: n'_def float_of_nat_def n_def)
  have un: "0 < (1 - ?u) * n"
    using u n1 by (intro mult_pos_pos) simp_all
  have n'0: "0 < n'"
    using un n'lo by simp
  have slo: "(1 - ?c) * S \<le> s" and shi: "s \<le> (1 + ?c) * S"
    using py_sum_bounds [OF quarter len] by (simp_all add: s_def S_def)
  have s0: "0 \<le> s"
  proof -
    have "0 \<le> (1 - ?c) * S" using S0 by (intro mult_nonneg_nonneg) simp_all
    with slo show ?thesis by simp
  qed
  have thi: "t \<le> (1 + ?c) / (1 - ?u) * M"
  proof -
    have "0 \<le> (1 + ?c) * S" using S0 by (intro mult_nonneg_nonneg) simp_all
    then have "s / n' \<le> ((1 + ?c) * S) / ((1 - ?u) * n)"
      using shi un n'lo by (rule frac_le)
    also have "\<dots> = (1 + ?c) / (1 - ?u) * M"
      using n1 by (simp add: SM)
    finally show ?thesis by (simp add: t_def)
  qed
  have tlo: "(1 - ?c) / (1 + ?u) * M \<le> t"
  proof -
    have "((1 - ?c) * S) / ((1 + ?u) * n) \<le> s / n'"
      using s0 slo n'0 n'hi by (rule frac_le)
    moreover have "((1 - ?c) * S) / ((1 + ?u) * n) = (1 - ?c) / (1 + ?u) * M"
      using n1 by (simp add: SM)
    ultimately show ?thesis by (simp add: t_def)
  qed
  have kl: "1 - 1 / (8 * 10 ^ 8) \<le> (1 - ?u) * ((1 - ?c) / (1 + ?u))"
    and ku: "(1 + ?u) * ((1 + ?c) / (1 - ?u)) \<le> 1 + 1 / (8 * 10 ^ 8)"
    and kq: "1 / 2 \<le> (1 - ?c) / (1 + ?u)"
    by (simp_all add: unit_roundoff_def)
  have M0: "0 \<le> M" using M lo by simp
  have t4: "1 / 4 \<le> t"
  proof -
    have "1 / 2 * (1 / 2) \<le> (1 - ?c) / (1 + ?u) * M"
      using kq M lo u(1) by (intro mult_mono) simp_all
    with tlo show ?thesis by simp
  qed
  have qlo: "(1 - ?u) * t \<le> q" and qhi: "q \<le> (1 + ?u) * t"
    using float_round_bounds [OF t4] by (simp_all add: q_def float_div_def t_def)
  have "q \<le> (1 + ?u) * ((1 + ?c) / (1 - ?u) * M)"
    using qhi thi u by (meson less_eq_rat_def mult_left_mono order_trans add_nonneg_nonneg zero_le_one)
  also have "\<dots> = (1 + ?u) * ((1 + ?c) / (1 - ?u)) * M"
    by (simp add: mult.assoc)
  also have "\<dots> \<le> (1 + 1 / (8 * 10 ^ 8)) * M"
    using ku M0 by (rule mult_right_mono)
  finally have Q1: "q \<le> M + M / (8 * 10 ^ 8)"
    by (simp add: algebra_simps)
  have "(1 - 1 / (8 * 10 ^ 8)) * M \<le> (1 - ?u) * ((1 - ?c) / (1 + ?u)) * M"
    using kl M0 by (rule mult_right_mono)
  also have "\<dots> = (1 - ?u) * ((1 - ?c) / (1 + ?u) * M)"
    by (simp add: mult.assoc)
  also have "\<dots> \<le> (1 - ?u) * t"
    using tlo u by (intro mult_left_mono) simp_all
  also note qlo
  finally have Q2: "M - M / (8 * 10 ^ 8) \<le> q"
    by (simp add: algebra_simps)
  have "M / (8 * 10 ^ 8) \<le> 1 / 10 ^ 8"
    using M hi by simp
  with Q1 Q2 have "\<bar>q - M\<bar> \<le> 1 / 10 ^ 8"
    by linarith
  then show "\<bar>float_div (py_sum xs) (float_of_nat (length xs)) - exact_mean xs\<bar> \<le> 1 / 10 ^ 8"
    by (simp add: q_def s_def n'_def M_def)
  have "1 / 4 \<le> (1 - ?u) * t"
  proof -
    have "(0::rat) \<le> 1 - 1 / (8 * 10 ^ 8)" by simp
    then have kl0: "0 \<le> (1 - ?u) * ((1 - ?c) / (1 + ?u))"
      using kl by (rule order_trans)
    have "1 / 2 \<le> M" using M lo by simp
    with kl have "(1 - 1 / (8 * 10 ^ 8)) * (1 / 2) \<le> (1 - ?u) * ((1 - ?c) / (1 + ?u)) * M"
      using kl0 by (rule mult_mono) simp
    also have "\<dots> = (1 - ?u) * ((1 - ?c) / (1 + ?u) * M)"
      by (simp add: mult.assoc)
    also have "\<dots> \<le> (1 - ?u) * t"
      using tlo u by (intro mult_left_mono) simp_all
    finally show ?thesis by simp
  qed
  with qlo show "1 / 4 \<le> float_div (py_sum xs) (float_of_nat (length xs))"
    by (simp add: q_def s_def n'_def)
qed

lemma py_round_2:
  "\<bar>of_int (round_half_even (q * 10 ^ 2)) / 10 ^ 2 - q\<bar> \<le> 1 / 200"
proof -
  have "\<bar>of_int (round_half_even (q * 100)) - q * 100\<bar> \<le> 1 / 2"
    by (rule round_half_even_error)
  then show ?thesis
    by (simp add: abs_le_iff field_simps)
qed

section \<open>Averages\<close>

subsection \<open>The rounded mean of a list of floats\<close>

lemma mean_round_bound:
  assumes ne: "xs \<noteq> []" and len: "length xs \<le> 1000000"
    and rng: "\<forall>x\<in>set xs. lo \<le> x \<and> x \<le> hi" and lo: "1 / 2 \<le> lo" and hi: "hi \<le> 7"
  shows "\<exists>k. py_round (float_div (py_sum xs) (float_of_nat (length xs))) 2
                = float_round (of_int k / 100)
             \<and> \<bar>of_int k / 100 - exact_mean xs\<bar> \<le> 1 / 200 + 1 / 10 ^ 8
             \<and> lo - 1 / 100 \<le> float_round (of_int k / 100)
             \<and> float_round (of_int k / 100) \<le> hi + 1 / 100"
proof -
  define q where "q = float_div (py_sum xs) (float_of_nat (length xs))"
  define k where "k = round_half_even (q * 10 ^ 2)"
  define y :: rat where "y = of_int k / 100"
  let ?M = "exact_mean xs"
  have r: "py_round q 2 = float_round y"
    by (simp add: py_round_def k_def y_def)
  have qM: "\<bar>q - ?M\<bar> \<le> 1 / 10 ^ 8"
    using float_mean_error(1) [OF assms] by (simp add: q_def)
  have yq: "\<bar>y - q\<bar> \<le> 1 / 200"
    using py_round_2 [of q] by (simp add: y_def k_def)
  have yM: "\<bar>y - ?M\<bar> \<le> 1 / 200 + 1 / 10 ^ 8"
    using qM yq by linarith
  have M: "lo \<le> ?M" "?M \<le> hi"
    using exact_mean_bounds [OF ne rng] by simp_all
  have yM': "\<bar>y - ?M\<bar> \<le> 1 / 100"
    using yM by simp
  have y4: "1 / 4 \<le> y"
    using yM' M lo by linarith
  have y8: "y \<le> 8"
    using yM' M hi by linarith
  have u: "0 < unit_roundoff" "unit_roundoff \<le> 1 / (8 * 10 ^ 15)"
    by (rule unit_roundoff_range)+
  define d where "d = unit_roundoff * y"
  have "d \<le> 1 / (8 * 10 ^ 15) * 8"
    unfolding d_def using u y4 y8 by (intro mult_mono) simp_all
  then have d1: "d \<le> 1 / 1000" by simp
  have d0: "0 \<le> d"
    unfolding d_def using u y4 by simp
  from float_round_bounds [OF y4]
  have f1: "y - d \<le> float_round y" and f2: "float_round y \<le> y + d"
    by (simp_all add: algebra_simps d_def)
  have yM'': "\<bar>y - ?M\<bar> \<le> 6 / 1000"
    using yM by simp
  have "lo - 1 / 100 \<le> float_round y"
    using f1 d1 yM'' M(1) by linarith
  moreover have "float_round y \<le> hi + 1 / 100"
    using f2 d1 yM'' M(2) by linarith
  ultimately have "lo - 1 / 100 \<le> float_round y \<and> float_round y \<le> hi + 1 / 100"
    by simp
  with r yM show ?thesis
    unfolding q_def y_def by blast
qed

lemma scale_range:
  assumes "g \<in> snd ` set NOTE_TEXT_TO_DECIMAL"
  shows "69 / 100 \<le> g \<and> g \<le> 6"
  using assms by (auto simp: scale_values)

lemma subject_average_bound:
  assumes "gs \<noteq> []" and "set gs \<subseteq> snd ` set NOTE_TEXT_TO_DECIMAL"
    and "length gs \<le> 1000000"
  shows "\<exists>k. calculate_subject_average gs = Some (float_round (of_int k / 100))
             \<and> \<bar>of_int k / 100 - exact_mean gs\<bar> \<le> 1 / 200 + 1 / 10 ^ 8
             \<and> 68 / 100 \<le> float_round (of_int k / 100)
             \<and> float_round (of_int k / 100) \<le> 601 / 100"
proof -
  have "\<forall>x\<in>set gs. 69 / 100 \<le> x \<and> x \<le> 6"
    using assms(2) scale_range by blast
  from mean_round_bound [OF assms(1) assms(3) this] assms(1) show ?thesis
    by (simp add: calculate_subject_average_def)
qed

lemma subject_average_tie:
  "calculate_subject_average [1, 1, float_round (13 / 10), 1] = Some (float_round (107 / 100))"
  by code_simp

lemma mean_rounded_tie: "mean_rounded [1, 1, float_round (13 / 10), 1] = 108 / 100"
  by code_simp

lemma mean_rounded_tie_decimal: "mean_rounded [1, 1, 13 / 10, 1] = 108 / 100"
  by code_simp

lemma float_107_108: "float_round (107 / 100) \<noteq> float_round (108 / 100)"
  by code_simp

lemma tie_grades_scale:
  "set [1, 1, float_round (13 / 10), 1] \<subseteq> snd ` set NOTE_TEXT_TO_DECIMAL"
  by (simp add: scale_values float_literals)

subsection \<open>Subject average\<close>

text \<open>
  C3, as the code has it. \<open>calculate_subject_average\<close> is \<open>None\<close> for the empty list.
  For a non-empty list of at most a million grades of the scale it returns the float
  nearest to a number with two decimals that lies within \<open>0.005 + 10^-8\<close> of the
  arithmetic mean of the grades: the mean rounded to two decimals, up to the rounding
  errors of the float sum and quotient. For \<open>[1.0, 2.0, 3.0]\<close> it returns \<open>2.0\<close>.
\<close>

theorem subject_average_float_mean:
  "calculate_subject_average [] = None
   \<and> (gs \<noteq> [] \<and> set gs \<subseteq> snd ` set NOTE_TEXT_TO_DECIMAL \<and> length gs \<le> 1000000 \<longrightarrow>
        (\<exists>k. calculate_subject_average gs = Some (float_round (of_int k / 100))
              \<and> \<bar>of_int k / 100 - exact_mean gs\<bar> \<le> 1 / 200 + 1 / 10 ^ 8))
   \<and> calculate_subject_average [float_round 1, float_round 2, float_round 3] = Some (float_round 2)"
proof -
  have 1: "calculate_subject_average [] = None"
    by (simp add: calculate_subject_average_def)
  have 3: "calculate_subject_average [float_round 1, float_round 2, float_round 3]
             = Some (float_round 2)"
    by code_simp
  from 1 3 subject_average_bound [of gs] show ?thesis by blast
qed

theorem subject_average_float_mean_witness:
  "[1, 1, float_round (13 / 10), 1] \<noteq> []
   \<and> set [1, 1, float_round (13 / 10), 1] \<subseteq> snd ` set NOTE_TEXT_TO_DECIMAL
   \<and> (\<exists>k. calculate_subject_average [1, 1, float_round (13 / 10), 1]
              = Some (float_round (of_int k / 100))
          \<and> \<bar>of_int k / 100 - exact_mean [1, 1, float_round (13 / 10), 1]\<bar>
               \<le> 1 / 200 + 1 / 10 ^ 8)"
proof -
  from subject_average_float_mean [of "[1, 1, float_round (13 / 10), 1]"] tie_grades_scale
  have "\<exists>k. calculate_subject_average [1, 1, float_round (13 / 10), 1]
              = Some (float_round (of_int k / 100))
          \<and> \<bar>of_int k / 100 - exact_mean [1, 1, float_round (13 / 10), 1]\<bar>
               \<le> 1 / 200 + 1 / 10 ^ 8"
    by simp
  with tie_grades_scale show ?thesis by simp
qed

text \<open>
  C3 as the claim states it, the mean rounded to two decimals, fails where the mean is next
  to a rounding boundary. For the grades "1", "1", "1-", "1" the floats are 1.0, 1.0,
  1.3000000000000000444, 1.0; their mean is 1.0750000000000000111, which rounds to 1.08.
  The float sum is 4.2999999999999998, the float quotient 1.0749999999999999556, and
  \<open>round\<close> makes 1.07 of it. (The mean of the decimal grades 1, 1, 1.3, 1 is 1.075 and
  rounds to 1.08 as well.)
\<close>

theorem subject_average_counterexample:
  "calculate_subject_average [1, 1, float_round (13 / 10), 1] = Some (float_round (107 / 100))
   \<and> mean_rounded [1, 1, float_round (13 / 10), 1] = 108 / 100
   \<and> mean_rounded [1, 1, 13 / 10, 1] = 108 / 100
   \<and> calculate_subject_average [1, 1, float_round (13 / 10), 1]
        \<noteq> Some (float_round (mean_rounded [1, 1, float_round (13 / 10), 1]))"
  unfolding subject_average_tie mean_rounded_tie mean_rounded_tie_decimal
  using float_107_108 by simp

subsection \<open>Student average\<close>

lemma subject_average_None: "calculate_subject_average gs = None \<longleftrightarrow> gs = []"
  by (simp add: calculate_subject_average_def)

lemma subject_avgs_loop_eq:
  "subject_avgs_loop (map snd subjects_data) acc = acc @ subject_averages subjects_data"
proof (induction subjects_data arbitrary: acc)
  case Nil
  then show ?case by (simp add: subject_averages_def)
next
  case (Cons p subjects_data)
  obtain key subj where p: "p = (key, subj)" by (cases p)
  show ?case
  proof (cases "grades subj = []")
    case True
    then show ?thesis
      using Cons.IH [of acc] by (simp add: p subject_averages_def calculate_subject_average_def)
  next
    case False
    then obtain avg where avg: "calculate_subject_average (grades subj) = Some avg"
      by (auto simp: calculate_subject_average_def)
    with False show ?thesis
      using Cons.IH [of "acc @ [avg]"] by (simp add: p subject_averages_def)
  qed
qed

lemma subject_averages_Nil:
  "subject_averages subjects_data = [] \<longleftrightarrow> (\<forall>(key, subj) \<in> set subjects_data. grades subj = [])"
  by (auto simp: subject_averages_def filter_empty_conv)

lemma student_average_eq:
  "calculate_student_average subjects_data =
     (if subject_averages subjects_data = [] then None
      else Some (py_round (float_div (py_sum (subject_averages subjects_data))
                   (float_of_nat (length (subject_averages subjects_data)))) 2))"
  by (simp add: calculate_student_average_def subject_avgs_loop_eq Let_def)

lemma subject_averages_range:
  assumes "\<forall>(key, subj) \<in> set subjects_data.
             set (grades subj) \<subseteq> snd ` set NOTE_TEXT_TO_DECIMAL \<and> length (grades subj) \<le> 1000000"
  shows "\<forall>x\<in>set (subject_averages subjects_data). 68 / 100 \<le> x \<and> x \<le> 601 / 100"
proof
  fix x assume "x \<in> set (subject_averages subjects_data)"
  then obtain key subj where m: "(key, subj) \<in> set subjects_data" and ne: "grades subj \<noteq> []"
    and x: "x = the (calculate_subject_average (grades subj))"
    by (auto simp: subject_averages_def)
  from assms m have "set (grades subj) \<subseteq> snd ` set NOTE_TEXT_TO_DECIMAL"
    and "length (grades subj) \<le> 1000000"
    by auto
  from subject_average_bound [OF ne this] show "68 / 100 \<le> x \<and> x \<le> 601 / 100"
    by (auto simp: x)
qed

lemma student_average_bound:
  assumes ne: "subject_averages subjects_data \<noteq> []"
    and len: "length subjects_data \<le> 1000000"
    and sc: "\<forall>(key, subj) \<in> set subjects_data.
             set (grades subj) \<subseteq> snd ` set NOTE_TEXT_TO_DECIMAL \<and> length (grades subj) \<le> 1000000"
  shows "\<exists>k. calculate_student_average subjects_data = Some (float_round (of_int k / 100))
             \<and> \<bar>of_int k / 100 - exact_mean (subject_averages subjects_data)\<bar>
                  \<le> 1 / 200 + 1 / 10 ^ 8
             \<and> 67 / 100 \<le> float_round (of_int k / 100)
             \<and> float_round (of_int k / 100) \<le> 602 / 100"
proof -
  have "length (subject_averages subjects_data) \<le> length subjects_data"
    by (simp add: subject_averages_def)
  with len have l: "length (subject_averages subjects_data) \<le> 1000000"
    by simp
  from mean_round_bound [OF ne l subject_averages_range [OF sc]] ne show ?thesis
    by (simp add: student_average_eq)
qed

lemma four_subjects_avgs:
  "subject_averages four_subjects = [1, 1, float_round (13 / 10), 1]"
  by code_simp

lemma four_subjects_average:
  "calculate_student_average four_subjects = Some (float_round (107 / 100))"
  by code_simp

lemma four_subjects_scale:
  "\<forall>(key, subj) \<in> set four_subjects.
      set (grades subj) \<subseteq> snd ` set NOTE_TEXT_TO_DECIMAL \<and> length (grades subj) \<le> 1000000"
  by (simp add: four_subjects_def one_grade_def scale_values float_literals)

text \<open>
  C1, as the code has it. \<open>calculate_student_average\<close> averages in two levels: it is
  \<open>calculate_subject_average\<close> applied to the averages of the subjects that have grades
  (subjects without grades are left out), so it is \<open>None\<close> exactly when no subject has a
  grade. With grades of the scale, at most a million per subject and a million subjects, the
  result is the float nearest to a number with two decimals within \<open>0.005 + 10^-8\<close> of the
  arithmetic mean of those subject averages. For the subjects A: 1.0, 2.0 and B: none it is
  the average of A, 1.5; for A: 1.0, 1.0 and B: 6.0 it is 3.5, where the three grades
  pooled have the average 2.67.
\<close>

theorem student_average_two_level:
  "calculate_student_average subjects_data
     = calculate_subject_average (subject_averages subjects_data)
   \<and> (calculate_student_average subjects_data = None
        \<longleftrightarrow> (\<forall>(key, subj) \<in> set subjects_data. grades subj = []))
   \<and> ((\<exists>(key, subj) \<in> set subjects_data. grades subj \<noteq> [])
        \<and> length subjects_data \<le> 1000000
        \<and> (\<forall>(key, subj) \<in> set subjects_data.
              set (grades subj) \<subseteq> snd ` set NOTE_TEXT_TO_DECIMAL
              \<and> length (grades subj) \<le> 1000000) \<longrightarrow>
        (\<exists>k. calculate_student_average subjects_data = Some (float_round (of_int k / 100))
              \<and> \<bar>of_int k / 100 - exact_mean (subject_averages subjects_data)\<bar>
                   \<le> 1 / 200 + 1 / 10 ^ 8))
   \<and> calculate_student_average subjects_a_b
        = calculate_subject_average [float_round 1, float_round 2]
   \<and> calculate_student_average subjects_a_b = Some (3 / 2)
   \<and> calculate_student_average subjects_1_1_6 = Some (7 / 2)
   \<and> calculate_subject_average [float_round 1, float_round 1, float_round 6]
        = Some (float_round (267 / 100))"
proof -
  have 1: "calculate_student_average subjects_data
     = calculate_subject_average (subject_averages subjects_data)"
    by (simp add: student_average_eq calculate_subject_average_def)
  have 2: "calculate_student_average subjects_data = None
        \<longleftrightarrow> (\<forall>(key, subj) \<in> set subjects_data. grades subj = [])"
    by (simp add: student_average_eq subject_averages_Nil)
  have 3: "(\<exists>(key, subj) \<in> set subjects_data. grades subj \<noteq> [])
        \<and> length subjects_data \<le> 1000000
        \<and> (\<forall>(key, subj) \<in> set subjects_data.
              set (grades subj) \<subseteq> snd ` set NOTE_TEXT_TO_DECIMAL
              \<and> length (grades subj) \<le> 1000000) \<longrightarrow>
        (\<exists>k. calculate_student_average subjects_data = Some (float_round (of_int k / 100))
              \<and> \<bar>of_int k / 100 - exact_mean (subject_averages subjects_data)\<bar>
                   \<le> 1 / 200 + 1 / 10 ^ 8)"
  proof (intro impI, elim conjE)
    assume "\<exists>(key, subj) \<in> set subjects_data. grades subj \<noteq> []"
    then have ne: "subject_averages subjects_data \<noteq> []"
      unfolding subject_averages_Nil by fastforce
    assume "length subjects_data \<le> 1000000"
      and "\<forall>(key, subj) \<in> set subjects_data.
              set (grades subj) \<subseteq> snd ` set NOTE_TEXT_TO_DECIMAL
              \<and> length (grades subj) \<le> 1000000"
    from student_average_bound [OF ne this]
    show "\<exists>k. calculate_student_average subjects_data = Some (float_round (of_int k / 100))
              \<and> \<bar>of_int k / 100 - exact_mean (subject_averages subjects_data)\<bar>
                   \<le> 1 / 200 + 1 / 10 ^ 8"
      by blast
  qed
  have 4: "calculate_student_average subjects_a_b
        = calculate_subject_average [float_round 1, float_round 2]"
    by code_simp
  have 5: "calculate_student_average subjects_a_b = Some (3 / 2)"
    by code_simp
  have 6: "calculate_student_average subjects_1_1_6 = Some (7 / 2)"
    by code_simp
  have 7: "calculate_subject_average [float_round 1, float_round 1, float_round 6]
        = Some (float_round (267 / 100))"
    by code_simp
  from 1 2 3 4 5 6 7 show ?thesis by blast
qed

theorem student_average_two_level_witness:
  "(\<exists>k. calculate_student_average four_subjects = Some (float_round (of_int k / 100))
        \<and> \<bar>of_int k / 100 - exact_mean (subject_averages four_subjects)\<bar>
             \<le> 1 / 200 + 1 / 10 ^ 8)
   \<and> subject_averages four_subjects = [1, 1, float_round (13 / 10), 1]"
proof -
  have a: "\<exists>(key, subj) \<in> set four_subjects. grades subj \<noteq> []"
    by (simp add: four_subjects_def one_grade_def)
  have b: "length four_subjects \<le> 1000000"
    by (simp add: four_subjects_def)
  from student_average_two_level [of four_subjects] a b four_subjects_scale
  have "\<exists>k. calculate_student_average four_subjects = Some (float_round (of_int k / 100))
        \<and> \<bar>of_int k / 100 - exact_mean (subject_averages four_subjects)\<bar>
             \<le> 1 / 200 + 1 / 10 ^ 8"
    by blast
  with four_subjects_avgs show ?thesis by simp
qed

text \<open>
  C1 as the claim states it fails in the same way as C3: four subjects with one grade each,
  "1", "1", "1-", "1", have the averages 1.0, 1.0, 1.3, 1.0, whose mean rounds to 1.08; the
  student average is 1.07.
\<close>

theorem student_average_counterexample:
  "calculate_student_average four_subjects = Some (float_round (107 / 100))
   \<and> subject_averages four_subjects = [1, 1, float_round (13 / 10), 1]
   \<and> mean_rounded (subject_averages four_subjects) = 108 / 100
   \<and> calculate_student_average four_subjects
        \<noteq> Some (float_round (mean_rounded (subject_averages four_subjects)))"
  unfolding four_subjects_average four_subjects_avgs mean_rounded_tie
  using float_107_108 by simp

subsection \<open>Class average\<close>

lemma student_avgs_loop_eq:
  "student_avgs_loop (map snd d) acc = acc @ student_averages d"
proof (induction d arbitrary: acc)
  case Nil
  then show ?case by (simp add: student_averages_def)
next
  case (Cons p d)
  obtain sid student where p: "p = (sid, student)" by (cases p)
  show ?case
  proof (cases "calculate_student_average (subjects student)")
    case None
    then show ?thesis
      using Cons.IH [of acc] by (simp add: p student_averages_def)
  next
    case (Some avg)
    then show ?thesis
      using Cons.IH [of "acc @ [avg]"] by (simp add: p student_averages_def)
  qed
qed

lemma student_averages_Nil:
  "student_averages d = []
     \<longleftrightarrow> (\<forall>(sid, student) \<in> set d. calculate_student_average (subjects student) = None)"
  by (auto simp: student_averages_def filter_empty_conv)

lemma total_avg_eq:
  "total_avg d =
     (if student_averages d = [] then None
      else Some (py_round (float_div (py_sum (student_averages d))
                   (float_of_nat (length (student_averages d)))) 2))"
proof -
  have l: "student_avgs_loop (map snd d) [] = student_averages d"
    using student_avgs_loop_eq [of d "[]"] by simp
  show ?thesis
  proof (cases "d = []")
    case True
    then show ?thesis by (simp add: total_avg_def student_averages_def)
  next
    case False
    then show ?thesis by (simp add: total_avg_def l Let_def)
  qed
qed

lemma student_averages_range:
  assumes "\<forall>(sid, student) \<in> set d. length (subjects student) \<le> 1000000
             \<and> (\<forall>(key, subj) \<in> set (subjects student).
                   set (grades subj) \<subseteq> snd ` set NOTE_TEXT_TO_DECIMAL
                   \<and> length (grades subj) \<le> 1000000)"
  shows "\<forall>x\<in>set (student_averages d). 67 / 100 \<le> x \<and> x \<le> 602 / 100"
proof
  fix x assume "x \<in> set (student_averages d)"
  then obtain sid student where m: "(sid, student) \<in> set d"
    and ne: "calculate_student_average (subjects student) \<noteq> None"
    and x: "x = the (calculate_student_average (subjects student))"
    by (auto simp: student_averages_def)
  from ne have ne': "subject_averages (subjects student) \<noteq> []"
    by (simp add: student_average_eq split: if_splits)
  from assms m have a: "length (subjects student) \<le> 1000000
    \<and> (\<forall>(key, subj) \<in> set (subjects student).
           set (grades subj) \<subseteq> snd ` set NOTE_TEXT_TO_DECIMAL \<and> length (grades subj) \<le> 1000000)"
    by fast
  from student_average_bound [OF ne' conjunct1 [OF a] conjunct2 [OF a]]
  show "67 / 100 \<le> x \<and> x \<le> 602 / 100"
    by (auto simp: x)
qed

lemma total_avg_bound:
  assumes ne: "student_averages d \<noteq> []"
    and len: "length d \<le> 1000000"
    and sc: "\<forall>(sid, student) \<in> set d. length (subjects student) \<le> 1000000
             \<and> (\<forall>(key, subj) \<in> set (subjects student).
                   set (grades subj) \<subseteq> snd ` set NOTE_TEXT_TO_DECIMAL
                   \<and> length (grades subj) \<le> 1000000)"
  shows "\<exists>k. total_avg d = Some (float_round (of_int k / 100))
             \<and> \<bar>of_int k / 100 - exact_mean (student_averages d)\<bar> \<le> 1 / 200 + 1 / 10 ^ 8"
proof -
  have "length (student_averages d) \<le> length d"
    by (simp add: student_averages_def)
  with len have l: "length (student_averages d) \<le> 1000000"
    by simp
  from mean_round_bound [OF ne l student_averages_range [OF sc]]
  obtain k where "py_round (float_div (py_sum (student_averages d))
                    (float_of_nat (length (student_averages d)))) 2
                  = float_round (of_int k / 100)"
    and "\<bar>of_int k / 100 - exact_mean (student_averages d)\<bar> \<le> 1 / 200 + 1 / 10 ^ 8"
    by auto
  with ne show ?thesis
    unfolding total_avg_eq by auto
qed

lemma four_students_avgs:
  "student_averages four_students = [1, 1, float_round (13 / 10), 1]"
  by code_simp

lemma four_students_average:
  "total_avg four_students = Some (float_round (107 / 100))"
  by code_simp

lemma four_students_scale:
  "\<forall>(sid, student) \<in> set four_students. length (subjects student) \<le> 1000000
     \<and> (\<forall>(key, subj) \<in> set (subjects student).
           set (grades subj) \<subseteq> snd ` set NOTE_TEXT_TO_DECIMAL
           \<and> length (grades subj) \<le> 1000000)"
  by (simp add: four_students_def one_subject_def one_grade_def scale_values float_literals)

lemma four_students_defined:
  "\<exists>(sid, student) \<in> set four_students. calculate_student_average (subjects student) \<noteq> None"
proof -
  have "student_averages four_students \<noteq> []"
    by (simp add: four_students_avgs)
  then show ?thesis
    by (auto simp: student_averages_Nil)
qed

text \<open>
  C8, as the code has it. The class average of the statistics page is
  \<open>calculate_subject_average\<close> applied to the averages of the students that have one:
  students without an average are in neither the sum nor the count, and there is no class
  average exactly when no student has an average. With grades of the scale, at most a
  million grades per subject, subjects per student and students, it is the float nearest to
  a number with two decimals within \<open>0.005 + 10^-8\<close> of the arithmetic mean of those
  student averages.
\<close>

theorem class_average_of_student_averages:
  "total_avg d = calculate_subject_average (student_averages d)
   \<and> (total_avg d = None
        \<longleftrightarrow> (\<forall>(sid, student) \<in> set d. calculate_student_average (subjects student) = None))
   \<and> ((\<exists>(sid, student) \<in> set d. calculate_student_average (subjects student) \<noteq> None)
        \<and> length d \<le> 1000000
        \<and> (\<forall>(sid, student) \<in> set d. length (subjects student) \<le> 1000000
              \<and> (\<forall>(key, subj) \<in> set (subjects student).
                    set (grades subj) \<subseteq> snd ` set NOTE_TEXT_TO_DECIMAL
                    \<and> length (grades subj) \<le> 1000000)) \<longrightarrow>
        (\<exists>k. total_avg d = Some (float_round (of_int k / 100))
              \<and> \<bar>of_int k / 100 - exact_mean (student_averages d)\<bar> \<le> 1 / 200 + 1 / 10 ^ 8))"
proof -
  have 1: "total_avg d = calculate_subject_average (student_averages d)"
    by (simp add: total_avg_eq calculate_subject_average_def)
  have 2: "total_avg d = None
        \<longleftrightarrow> (\<forall>(sid, student) \<in> set d. calculate_student_average (subjects student) = None)"
    by (simp add: total_avg_eq student_averages_Nil)
  have 3: "(\<exists>(sid, student) \<in> set d. calculate_student_average (subjects student) \<noteq> None)
        \<and> length d \<le> 1000000
        \<and> (\<forall>(sid, student) \<in> set d. length (subjects student) \<le> 1000000
              \<and> (\<forall>(key, subj) \<in> set (subjects student).
                    set (grades subj) \<subseteq> snd ` set NOTE_TEXT_TO_DECIMAL
                    \<and> length (grades subj) \<le> 1000000)) \<longrightarrow>
        (\<exists>k. total_avg d = Some (float_round (of_int k / 100))
              \<and> \<bar>of_int k / 100 - exact_mean (student_averages d)\<bar> \<le> 1 / 200 + 1 / 10 ^ 8)"
  proof (intro impI, elim conjE)
    assume "\<exists>(sid, student) \<in> set d. calculate_student_average (subjects student) \<noteq> None"
    then have ne: "student_averages d \<noteq> []"
      unfolding student_averages_Nil by fastforce
    assume "length d \<le> 1000000"
      and "\<forall>(sid, student) \<in> set d. length (subjects student) \<le> 1000000
              \<and> (\<forall>(key, subj) \<in> set (subjects student).
                    set (grades subj) \<subseteq> snd ` set NOTE_TEXT_TO_DECIMAL
                    \<and> length (grades subj) \<le> 1000000)"
    from total_avg_bound [OF ne this]
    show "\<exists>k. total_avg d = Some (float_round (of_int k / 100))
              \<and> \<bar>of_int k / 100 - exact_mean (student_averages d)\<bar> \<le> 1 / 200 + 1 / 10 ^ 8"
      by blast
  qed
  from 1 2 3 show ?thesis by blast
qed

theorem class_average_of_student_averages_witness:
  "(\<exists>k. total_avg four_students = Some (float_round (of_int k / 100))
        \<and> \<bar>of_int k / 100 - exact_mean (student_averages four_students)\<bar>
             \<le> 1 / 200 + 1 / 10 ^ 8)
   \<and> student_averages four_students = [1, 1, float_round (13 / 10), 1]"
proof -
  have b: "length four_students \<le> 1000000"
    by (simp add: four_students_def)
  from class_average_of_student_averages [of four_students]
    four_students_defined b four_students_scale
  have "\<exists>k. total_avg four_students = Some (float_round (of_int k / 100))
        \<and> \<bar>of_int k / 100 - exact_mean (student_averages four_students)\<bar>
             \<le> 1 / 200 + 1 / 10 ^ 8"
    by blast
  with four_students_avgs show ?thesis by simp
qed

text \<open>
  C8 as the claim states it fails in the same way as C3: four students whose averages are
  1.0, 1.0, 1.3, 1.0 have the class average 1.07, and the mean of the four rounds to 1.08.
\<close>

theorem class_average_counterexample:
  "total_avg four_students = Some (float_round (107 / 100))
   \<and> student_averages four_students = [1, 1, float_round (13 / 10), 1]
   \<and> mean_rounded (student_averages four_students) = 108 / 100
   \<and> total_avg four_students
        \<noteq> Some (float_round (mean_rounded (student_averages four_students)))"
  unfolding four_students_average four_students_avgs mean_rounded_tie
  using float_107_108 by simp


section \<open>Loading the document\<close>

text \<open>
  C4. \<open>load_data\<close> returns the empty record set and shows nothing when \<open>noten_db.json\<close>
  does not exist. When the file exists and cannot be opened or \<open>json.load\<close> raises, it
  shows the warning and returns the empty record set. No exception leaves \<open>load_data\<close>,
  whatever the file and the parser.
\<close>

theorem load_data_never_raises:
  "load_data json_load Missing = Inr ([], [])
   \<and> load_data json_load Unreadable = Inr ([], [Warning_db_unreadable])
   \<and> (json_load text = Inl e \<longrightarrow>
        load_data json_load (Content text) = Inr ([], [Warning_db_unreadable]))
   \<and> (\<forall>err. load_data json_load f \<noteq> Inl err)"
  by (cases f) (auto simp: load_data_def open_read_def split: sum.splits)

theorem load_data_never_raises_witness:
  "(\<lambda>text. if text = ''{}'' then Inr [] else Inl JSONDecodeError) ''{'' = Inl JSONDecodeError
   \<and> load_data (\<lambda>text. if text = ''{}'' then Inr [] else Inl JSONDecodeError) (Content ''{'')
       = Inr ([], [Warning_db_unreadable])"
  using load_data_never_raises
    [of "\<lambda>text. if text = ''{}'' then Inr [] else Inl JSONDecodeError" "''{''"
        JSONDecodeError Missing]
  by simp

section \<open>Rejected names and subjects\<close>

lemma ascii_strip_blank: "ascii_strip ''  '' = []"
  by (simp add: ascii_strip_def)

lemma session1_s1: "subscript (data session1) ''s1'' = Inr anna"
  by (simp add: session1_def subscript_def)

text \<open>
  C9. A new student whose name is empty after \<open>strip()\<close> (an empty or whitespace-only
  name) is rejected: the session is as before except for the error message, so the record
  set is unchanged and \<open>save_data\<close> has not run. The same holds for "Aenderungen
  speichern" with such a name on an existing student.
\<close>

theorem empty_name_rejected:
  assumes "strip new_name = []"
  shows "submit_new_student strip new_name new_class now s
           = s\<lparr>shown := shown s @ [Error_name_empty]\<rparr>
    \<and> (\<forall>student. subscript (data s) student_id = Inr student \<longrightarrow>
          (\<exists>s'. save_changes strip student_id new_name new_class s = Inr s'
             \<and> data s' = data s \<and> written s' = written s
             \<and> shown s' = shown s @ [Error_name_empty]))"
  using assms
  by (simp add: submit_new_student_def save_changes_def select_student_def st_show_def)

theorem empty_name_rejected_witness:
  "ascii_strip ''  '' = []
   \<and> data (submit_new_student ascii_strip ''  '' ''5a'' ''20240101120000'' session1)
       = [(''s1'', anna)]
   \<and> written (submit_new_student ascii_strip ''  '' ''5a'' ''20240101120000'' session1) = []
   \<and> (\<exists>s'. save_changes ascii_strip ''s1'' ''  '' ''5a'' session1 = Inr s'
         \<and> data s' = [(''s1'', anna)] \<and> written s' = [] \<and> shown s' = [Error_name_empty])"
  using empty_name_rejected
      [of ascii_strip "''  ''" "''5a''" "''20240101120000''" session1 "''s1''"]
    session1_s1 ascii_strip_blank
  by (simp add: session1_def)

text \<open>
  C10. "Fach hinzufuegen" with a non-empty name whose key (stripped, lowercased, spaces
  replaced by underscores) is already a key of the student's subjects: the record set is
  unchanged (the subject keeps its name and grades, no entry is added), nothing is saved,
  and the warning is shown.
\<close>

theorem existing_subject_not_added:
  assumes "subscript (data s) student_id = Inr student"
    and "strip new_subject \<noteq> []"
    and "replace_spaces (lower (strip new_subject)) \<in> set (map fst (subjects student))"
  shows "\<exists>s'. add_subject lower strip student_id new_subject s = Inr s'
           \<and> data s' = data s \<and> written s' = written s
           \<and> shown s' = shown s @ [Warning_subject_exists]"
  using assms
  by (simp add: add_subject_def select_student_def st_show_def)

theorem existing_subject_not_added_witness:
  "replace_spaces (ascii_lower (ascii_strip '' MATHE Kurs '')) = ''mathe_kurs''
   \<and> (\<exists>s'. add_subject ascii_lower ascii_strip ''s1'' '' MATHE Kurs '' session1 = Inr s'
         \<and> data s' = [(''s1'', anna)] \<and> written s' = []
         \<and> shown s' = [Warning_subject_exists])"
proof -
  have k: "replace_spaces (ascii_lower (ascii_strip '' MATHE Kurs '')) = ''mathe_kurs''"
    by code_simp
  have n: "ascii_strip '' MATHE Kurs '' \<noteq> []"
    by code_simp
  have m: "replace_spaces (ascii_lower (ascii_strip '' MATHE Kurs ''))
             \<in> set (map fst (subjects anna))"
    unfolding k by (simp add: anna_def)
  from existing_subject_not_added
         [where lower = ascii_lower and strip = ascii_strip and new_subject = "'' MATHE Kurs ''",
          OF session1_s1 n m] k
  show ?thesis
    by (simp add: session1_def)
qed

section \<open>CSV import\<close>

subsection \<open>Dicts that are only extended\<close>

















subsection \<open>The three writes of the loop body\<close>






subsection \<open>Grades in the record set\<close>







text \<open>
  A row whose subject cell is not a text leaves the loop with \<open>AttributeError\<close>; the
  import then shows the error and does not save, and the session keeps what the loop had
  written to the record set so far.
\<close>

lemma import_row_subject_not_text:
  assumes "row col_id = Some id_cell" and "row ''Name'' = Some n"
    and "row ''Fach'' = Some (NonText v)"
  shows "snd (import_row lower row (d, msgs)) = Some AttributeError"
  using assms by (simp add: import_row.simps Let_def)

lemma import_aborted_not_saved:
  assumes "import_loop lower rows (data s, shown s) = ((d', msgs'), Some e)"
  shows "written (import_click lower rows s) = written s
    \<and> shown (import_click lower rows s) = msgs' @ [Error_csv e]"
  using assms by (simp add: import_click_def st_show_def)



subsection \<open>Rows of the export layout, and the grade a row appends\<close>




















section \<open>Student ids\<close>

text \<open>
  The time is the last part of the id, so two ids made at clock readings that differ (and
  are as long as each other, as all \<open>%Y%m%d%H%M%S\<close> readings of four-digit years are) differ.
\<close>

lemma new_student_id_clock:
  assumes "length now = length now'"
    and "new_student_id d now = new_student_id d' now'"
  shows "now = now'"
proof -
  have "(''schueler_'' @ str_nat (length d + 1) @ ''_'') @ now
          = (''schueler_'' @ str_nat (length d' + 1) @ ''_'') @ now'"
    using assms(2) by (simp add: new_student_id_def)
  with assms(1) show ?thesis
    by (metis append_eq_append_conv)
qed

text \<open>
  C7. A new id can be the id of a student that is already there. On 27 October 2024 the
  local clock shows 02:30:00 twice. Anna is created at 02:29:59, Ben at the first
  02:30:00 (two students, so the count in his id is 2), Anna is deleted, and Cem is created
  at the second 02:30:00: one student is left, the count is 2 again, the id is Ben's, and
  Cem's entry replaces Ben's.
\<close>

theorem new_student_id_collides:
  "map_sum id data
     (perform_all ascii_strip
        [Create ''Anna'' ''5a'' ''20241027022959'', Create ''Ben'' ''5a'' ''20241027023000'',
         Delete ''schueler_1_20241027022959''] empty_session)
     = Inr [(''schueler_2_20241027023000'',
             \<lparr>name = Text ''Ben'', class_label = Text ''5a'', subjects = []\<rparr>)]
   \<and> new_student_id
        [(''schueler_2_20241027023000'',
          \<lparr>name = Text ''Ben'', class_label = Text ''5a'', subjects = []\<rparr>)] ''20241027023000''
       = ''schueler_2_20241027023000''
   \<and> map_sum id data
       (perform_all ascii_strip
          [Create ''Anna'' ''5a'' ''20241027022959'', Create ''Ben'' ''5a'' ''20241027023000'',
           Delete ''schueler_1_20241027022959'', Create ''Cem'' ''5b'' ''20241027023000'']
          empty_session)
       = Inr [(''schueler_2_20241027023000'',
               \<lparr>name = Text ''Cem'', class_label = Text ''5b'', subjects = []\<rparr>)]"
  by code_simp

end
